theory Spec2Isabelle
  imports Complex_Main
begin

section \<open>Python values and errors\<close>

text \<open>
  The two programs, \<^verbatim>\<open>growth_api.py\<close> and \<^verbatim>\<open>financial_model_api.py\<close>, compute on
  Python floats. A float is modelled as a real number when it is finite, and as one of
  the three special values otherwise. Arithmetic on finite floats is the arithmetic of
  the reals: binary rounding is not modelled, and neither is the overflow of a float
  operation to an infinity, which raises nothing in the operations the programs use.
  The conversion of an integer to a float does raise beyond the range of a double, and
  that is modelled. The distinction between the integer \<^verbatim>\<open>5\<close> and the float \<^verbatim>\<open>5.0\<close> is
  kept for the values a caller passes in, and dropped for results, which Python compares
  equal.
\<close>

datatype pyfloat = Fin real | PosInf | NegInf | NaN

datatype pyval = PNone | PInt int | PFloat pyfloat

datatype py_error = TypeError | ZeroDivisionError | IndexError | KeyError | OverflowError

text \<open>\<^verbatim>\<open>isinstance(x, float)\<close>, \<^verbatim>\<open>math.isnan\<close> and \<^verbatim>\<open>math.isinf\<close>.\<close>

fun isinstance_float :: "pyval \<Rightarrow> bool" where
  "isinstance_float (PFloat f) = True"
| "isinstance_float x = False"

fun isnan :: "pyval \<Rightarrow> bool" where
  "isnan (PFloat NaN) = True"
| "isnan x = False"

fun isinf :: "pyval \<Rightarrow> bool" where
  "isinf (PFloat PosInf) = True"
| "isinf (PFloat NegInf) = True"
| "isinf x = False"

text \<open>
  \<^verbatim>\<open>float(x)\<close>: the identity on a float and a TypeError on None. An integer is converted
  when it lies within the range of a double, that is when its magnitude is below
  \<open>2 ^ 1024 - 2 ^ 970\<close>, the first value that rounds beyond the largest double; any other
  integer raises OverflowError. The binary rounding of the conversion is not modelled.
\<close>

definition DBL_INT_LIMIT :: int where
  "DBL_INT_LIMIT = 2 ^ 1024 - 2 ^ 970"

definition int_fits_double :: "int \<Rightarrow> bool" where
  "int_fits_double i = (- DBL_INT_LIMIT < i \<and> i < DBL_INT_LIMIT)"

fun py_float :: "pyval \<Rightarrow> py_error + pyfloat" where
  "py_float PNone = Inl TypeError"
| "py_float (PInt i) = (if int_fits_double i then Inr (Fin (of_int i)) else Inl OverflowError)"
| "py_float (PFloat f) = Inr f"

text \<open>The real number a finite float stands for. Nothing is said of the other floats.\<close>

fun fin_val :: "pyfloat \<Rightarrow> real" where
  "fin_val (Fin r) = r"

text \<open>
  \<^verbatim>\<open>x > 0\<close> on a raw value. Python 3 refuses to order None and an integer; a NaN
  compares False with everything; \<^verbatim>\<open>inf > 0\<close> is True.
\<close>

fun py_gt0 :: "pyval \<Rightarrow> py_error + bool" where
  "py_gt0 PNone = Inl TypeError"
| "py_gt0 (PInt i) = Inr (0 < i)"
| "py_gt0 (PFloat (Fin r)) = Inr (0 < r)"
| "py_gt0 (PFloat PosInf) = Inr True"
| "py_gt0 (PFloat NegInf) = Inr False"
| "py_gt0 (PFloat NaN) = Inr False"

text \<open>
  A call that may raise is a value of \<open>py_error + 'a\<close>; \<open>bind_result m f\<close> runs \<open>f\<close> on
  the result of \<open>m\<close>, and stops at the error when \<open>m\<close> raised.
\<close>

definition bind_result :: "py_error + 'a \<Rightarrow> ('a \<Rightarrow> py_error + 'b) \<Rightarrow> py_error + 'b" where
  "bind_result m f = (case m of Inl e \<Rightarrow> Inl e | Inr x \<Rightarrow> f x)"

text \<open>Float division: a zero divisor raises.\<close>

definition py_div :: "real \<Rightarrow> real \<Rightarrow> py_error + real" where
  "py_div num den = (if den = 0 then Inl ZeroDivisionError else Inr (num / den))"

text \<open>
  The subscript \<^verbatim>\<open>xs[i]\<close>. An index from 0 up to the length reads from the front, an
  index from \<open>- length\<close> up to \<open>-1\<close> reads from the back, anything else is an IndexError.
\<close>

definition py_index :: "'a list \<Rightarrow> int \<Rightarrow> py_error + 'a" where
  "py_index xs i =
     (if 0 \<le> i \<and> i < int (length xs) then Inr (xs ! nat i)
      else if i < 0 \<and> - i \<le> int (length xs) then Inr (xs ! (length xs - nat (- i)))
      else Inl IndexError)"

text \<open>
  \<^verbatim>\<open>round(x, ndigits)\<close> on a float: the nearest multiple of \<open>10 ^ - ndigits\<close>, a tie going
  to the even multiple.
\<close>

definition round_half_even :: "real \<Rightarrow> int" where
  "round_half_even y =
     (let f = \<lfloor>y\<rfloor>; d = y - of_int f
      in if d < 1 / 2 then f else if 1 / 2 < d then f + 1
         else if even f then f else f + 1)"

definition py_round :: "real \<Rightarrow> nat \<Rightarrow> real" where
  "py_round x ndigits = of_int (round_half_even (x * 10 ^ ndigits)) / 10 ^ ndigits"

text \<open>
  \<^verbatim>\<open>str.upper()\<close> on an ASCII string: each of the letters a to z is replaced by its
  capital, every other byte is kept.
\<close>

definition upper_char :: "char \<Rightarrow> char" where
  "upper_char c =
     (case map_of (zip ''abcdefghijklmnopqrstuvwxyz'' ''ABCDEFGHIJKLMNOPQRSTUVWXYZ'') c of
        Some C \<Rightarrow> C
      | None \<Rightarrow> c)"

definition upper :: "string \<Rightarrow> string" where
  "upper s = map upper_char s"

section \<open>growth\_api.py\<close>

subsection \<open>Sector limits\<close>

record limits =
  lim_min :: int
  lim_max :: int

definition SECTOR_LIMITS :: "string \<rightharpoonup> limits" where
  "SECTOR_LIMITS = map_of
     [(''ENERGY'', \<lparr>lim_min = 4, lim_max = 10\<rparr>),
      (''IT'', \<lparr>lim_min = 6, lim_max = 15\<rparr>),
      (''BANKING'', \<lparr>lim_min = 7, lim_max = 14\<rparr>),
      (''FMCG'', \<lparr>lim_min = 5, lim_max = 12\<rparr>),
      (''DEFAULT'', \<lparr>lim_min = 5, lim_max = 12\<rparr>)]"

text \<open>
  \<^verbatim>\<open>SECTOR_LIMITS.get(sector.upper(), SECTOR_LIMITS["DEFAULT"])\<close>: the default argument
  is a subscript, evaluated before the call, which raises on a missing key.
\<close>

definition sector_limits :: "string \<Rightarrow> py_error + limits" where
  "sector_limits sector =
     (case SECTOR_LIMITS ''DEFAULT'' of
        None \<Rightarrow> Inl KeyError
      | Some d \<Rightarrow> Inr (case_option d (\<lambda>l. l) (SECTOR_LIMITS (upper sector))))"

subsection \<open>safe\_float\<close>

definition safe_float :: "pyval \<Rightarrow> py_error + pyfloat" where
  "safe_float x =
     (if x = PNone then Inr (Fin 0)
      else if isinstance_float x \<and> (isnan x \<or> isinf x) then Inr (Fin 0)
      else py_float x)"

subsection \<open>calculate\_cagr\<close>

text \<open>
  Both arguments go through \<open>safe_float\<close> first. \<open>years\<close> is the integer
  \<^verbatim>\<open>len(values) - 1\<close> of the caller; \<^verbatim>\<open>1 / years\<close> is a true division, and \<^verbatim>\<open>**\<close>
  on a positive base is the real power.
\<close>

definition calculate_cagr :: "pyval \<Rightarrow> pyval \<Rightarrow> int \<Rightarrow> py_error + real" where
  "calculate_cagr start end' years =
     bind_result (safe_float start) (\<lambda>fs.
     bind_result (safe_float end') (\<lambda>fe.
       let s = fin_val fs; e = fin_val fe in
       if s \<le> 0 \<or> e \<le> 0 \<or> years \<le> 0 then Inr 0
       else
         bind_result (py_div e s) (\<lambda>ratio.
         bind_result (py_div 1 (of_int years)) (\<lambda>ex.
           Inr ((ratio powr ex - 1) * 100)))))"

subsection \<open>suggest\_growth\<close>

text \<open>
  The comprehension \<^verbatim>\<open>[safe_float(v) for v in values if v > 0]\<close>: each raw value is
  compared with 0 first, and only a value that passes is sanitized and kept.
\<close>

fun clean :: "pyval list \<Rightarrow> py_error + real list" where
  "clean [] = Inr []"
| "clean (v # vs) =
     bind_result (py_gt0 v) (\<lambda>keep.
       if keep then
         bind_result (safe_float v) (\<lambda>f.
         bind_result (clean vs) (\<lambda>rs. Inr (fin_val f # rs)))
       else clean vs)"

text \<open>
  The loop \<^verbatim>\<open>for i in range(-3, -1)\<close>, with the list \<open>recent\<close> as accumulator; the
  indices it runs over are \<open>[-3, -2]\<close>.
\<close>

fun recent_loop :: "real list \<Rightarrow> int list \<Rightarrow> real list \<Rightarrow> py_error + real list" where
  "recent_loop values [] recent = Inr recent"
| "recent_loop values (i # is) recent =
     bind_result (py_index values i) (\<lambda>d.
       if 0 < d then
         bind_result (py_index values (i + 1)) (\<lambda>n.
         bind_result (py_index values i) (\<lambda>d'.
         bind_result (py_div n d') (\<lambda>q.
           recent_loop values is (recent @ [(q - 1) * 100]))))
       else recent_loop values is recent)"

text \<open>\<^verbatim>\<open>sum(recent) / len(recent) if recent else 0.0\<close>\<close>

definition average :: "real list \<Rightarrow> py_error + real" where
  "average recent =
     (if recent \<noteq> [] then py_div (sum_list recent) (real (length recent)) else Inr 0)"

definition recent_trend :: "real list \<Rightarrow> py_error + real" where
  "recent_trend values = bind_result (recent_loop values [-3, -2] []) average"

definition suggest_growth :: "pyval list \<Rightarrow> string \<Rightarrow> py_error + real \<times> real \<times> real" where
  "suggest_growth values sector =
     bind_result (clean values) (\<lambda>vs.
       if length vs < 4 then Inr (0, 0, 0)
       else
         let years = int (length vs) - 1 in
         bind_result (py_index vs 0) (\<lambda>v0.
         bind_result (py_index vs (- 1)) (\<lambda>vl.
         bind_result (calculate_cagr (PFloat (Fin v0)) (PFloat (Fin vl)) years) (\<lambda>cagr.
         bind_result (recent_trend vs) (\<lambda>recent_avg.
           let raw = 0.6 * cagr + 0.4 * recent_avg in
           bind_result (sector_limits sector) (\<lambda>lims.
             let final = min (max raw (of_int (lim_min lims))) (of_int (lim_max lims))
             in Inr (py_round final 2, py_round cagr 2, py_round recent_avg 2)))))))"

section \<open>financial\_model\_api.py\<close>

text \<open>
  The second program takes its series from a request body declared \<^verbatim>\<open>list[float]\<close>, so
  a series is a list of finite floats. Its table of sector limits is the same as the
  one above. It has no \<open>safe_float\<close>, no cleaning step and no check of the length.
\<close>

definition fm_calculate_cagr :: "real \<Rightarrow> real \<Rightarrow> int \<Rightarrow> py_error + real" where
  "fm_calculate_cagr start_value end_value years =
     (if start_value \<le> 0 \<or> end_value \<le> 0 then Inr 0
      else
        bind_result (py_div end_value start_value) (\<lambda>ratio.
        bind_result (py_div 1 (of_int years)) (\<lambda>ex.
          Inr (ratio powr ex - 1))))"

fun fm_recent_loop :: "real list \<Rightarrow> int list \<Rightarrow> real list \<Rightarrow> py_error + real list" where
  "fm_recent_loop historical_values [] recent_growths = Inr recent_growths"
| "fm_recent_loop historical_values (i # is) recent_growths =
     bind_result (py_index historical_values (i + 1)) (\<lambda>n.
     bind_result (py_index historical_values i) (\<lambda>d.
     bind_result (py_div n d) (\<lambda>q.
       fm_recent_loop historical_values is (recent_growths @ [(q - 1) * 100]))))"

definition fm_recent_trend :: "real list \<Rightarrow> py_error + real" where
  "fm_recent_trend historical_values =
     bind_result (fm_recent_loop historical_values [-3, -2] []) (\<lambda>recent_growths.
       py_div (sum_list recent_growths) (real (length recent_growths)))"

definition fm_suggest_growth :: "real list \<Rightarrow> string \<Rightarrow> py_error + real \<times> real \<times> real" where
  "fm_suggest_growth historical_values sector =
     (let years = int (length historical_values) - 1 in
      bind_result (py_index historical_values 0) (\<lambda>v0.
      bind_result (py_index historical_values (- 1)) (\<lambda>vl.
      bind_result (fm_calculate_cagr v0 vl years) (\<lambda>fraction.
        let cagr = fraction * 100 in
        bind_result (fm_recent_trend historical_values) (\<lambda>recent_avg.
          let raw_suggestion = 0.6 * cagr + 0.4 * recent_avg in
          bind_result (sector_limits sector) (\<lambda>lims.
            let final_growth =
              min (max raw_suggestion (of_int (lim_min lims))) (of_int (lim_max lims))
            in Inr (py_round final_growth 1, py_round cagr 1, py_round recent_avg 1)))))))"

section \<open>The recent trend as the specification words it\<close>

text \<open>
  The specification describes the recent trend of a series as the mean, over the last
  \<open>k\<close> period-over-period transitions, of \<open>((v[i+1] / v[i]) - 1) * 100\<close>, taken over the
  transitions whose divisor \<open>v[i]\<close> is strictly positive, and 0 when there is none. The
  number \<open>k\<close> of transitions is a parameter here; the specification says three.
\<close>

definition window_growths :: "nat \<Rightarrow> real list \<Rightarrow> real list" where
  "window_growths k vs =
     map (\<lambda>i. (vs ! (i + 1) / vs ! i - 1) * 100)
       (filter (\<lambda>i. 0 < vs ! i) [length vs - 1 - k ..< length vs - 1])"

definition spec_recent_trend :: "nat \<Rightarrow> real list \<Rightarrow> real" where
  "spec_recent_trend k vs =
     (let gs = window_growths k vs
      in if gs = [] then 0 else sum_list gs / real (length gs))"

section \<open>Auxiliary facts\<close>

lemma bind_result_simps [simp]:
  "bind_result (Inl e) f = Inl e"
  "bind_result (Inr x) f = f x"
  by (simp_all add: bind_result_def)

subsection \<open>safe\_float and the cleaning step\<close>

lemma DBL_INT_LIMIT_large: "1000000 < DBL_INT_LIMIT"
  by (simp add: DBL_INT_LIMIT_def)

lemma int_fits_double_small: "\<bar>i\<bar> \<le> 1000000 \<Longrightarrow> int_fits_double i"
  unfolding int_fits_double_def using DBL_INT_LIMIT_large by linarith

lemma int_fits_double_pos: "0 < i \<Longrightarrow> i < DBL_INT_LIMIT \<Longrightarrow> int_fits_double i"
  by (simp add: int_fits_double_def)

lemma int_fits_double_big: "\<not> int_fits_double (10 ^ 400)"
  by (simp add: int_fits_double_def DBL_INT_LIMIT_def)

lemma big_int_positive: "(0::int) < 10 ^ 400"
  by simp

lemma safe_float_cases:
  "safe_float PNone = Inr (Fin 0)"
  "safe_float (PInt i) = (if int_fits_double i then Inr (Fin (of_int i)) else Inl OverflowError)"
  "safe_float (PFloat (Fin r)) = Inr (Fin r)"
  "safe_float (PFloat PosInf) = Inr (Fin 0)"
  "safe_float (PFloat NegInf) = Inr (Fin 0)"
  "safe_float (PFloat NaN) = Inr (Fin 0)"
  by (simp_all add: safe_float_def)

lemma safe_float_finite:
  "(\<forall>i. x = PInt i \<longrightarrow> int_fits_double i) \<Longrightarrow> \<exists>r. safe_float x = Inr (Fin r)"
proof (cases x)
  case (PFloat f)
  then show ?thesis by (cases f) (simp_all add: safe_float_cases)
qed (simp_all add: safe_float_cases)

lemma safe_float_result: "safe_float x = Inr f \<Longrightarrow> \<exists>r. f = Fin r"
proof (cases x)
  case (PFloat g)
  then show "safe_float x = Inr f \<Longrightarrow> \<exists>r. f = Fin r"
    by (cases g) (auto simp: safe_float_cases)
qed (auto simp: safe_float_cases split: if_splits)

lemma clean_total:
  assumes "PNone \<notin> set vals" and "\<forall>i. PInt i \<in> set vals \<longrightarrow> i < DBL_INT_LIMIT"
  shows "\<exists>vs. clean vals = Inr vs"
  using assms
proof (induction vals)
  case Nil
  then show ?case by simp
next
  case (Cons v vals)
  then obtain vs where vs: "clean vals = Inr vs" by auto
  show ?case
  proof (cases v)
    case PNone
    with Cons.prems show ?thesis by simp
  next
    case (PInt i)
    with Cons.prems have "i < DBL_INT_LIMIT" by simp
    then have "0 < i \<Longrightarrow> int_fits_double i" by (simp add: int_fits_double_pos)
    with PInt vs show ?thesis by (simp add: safe_float_cases)
  next
    case (PFloat f)
    with vs show ?thesis by (cases f) (simp_all add: safe_float_cases)
  qed
qed

lemma clean_length: "clean vals = Inr vs \<Longrightarrow> length vs \<le> length vals"
proof (induction vals arbitrary: vs)
  case Nil
  then show ?case by simp
next
  case (Cons v vals)
  show ?case
  proof (cases "clean vals")
    case (Inl e)
    with Cons.prems show ?thesis
      by (auto simp: bind_result_def split: sum.splits if_splits)
  next
    case (Inr rs)
    with Cons.IH have "length rs \<le> length vals" by simp
    with Cons.prems Inr show ?thesis
      by (auto simp: bind_result_def split: sum.splits if_splits)
  qed
qed

subsection \<open>Indexing from the end\<close>

lemma py_index_neg:
  "0 < k \<Longrightarrow> k \<le> length xs \<Longrightarrow> py_index xs (- int k) = Inr (xs ! (length xs - k))"
  by (simp add: py_index_def)

lemma py_index_last3:
  assumes "3 \<le> length xs"
  shows "py_index xs (- 3) = Inr (xs ! (length xs - 3))"
    and "py_index xs (- 2) = Inr (xs ! (length xs - 2))"
    and "py_index xs (- 1) = Inr (xs ! (length xs - 1))"
  using assms py_index_neg[of 3 xs] py_index_neg[of 2 xs] py_index_neg[of 1 xs] by simp_all

lemma py_index_first: "xs \<noteq> [] \<Longrightarrow> py_index xs 0 = Inr (xs ! 0)"
  by (simp add: py_index_def)

subsection \<open>Sector limits and rounding\<close>

lemma sector_limits_table:
  "sector_limits sector = Inr
     (if upper sector = ''ENERGY'' then \<lparr>lim_min = 4, lim_max = 10\<rparr>
      else if upper sector = ''IT'' then \<lparr>lim_min = 6, lim_max = 15\<rparr>
      else if upper sector = ''BANKING'' then \<lparr>lim_min = 7, lim_max = 14\<rparr>
      else if upper sector = ''FMCG'' then \<lparr>lim_min = 5, lim_max = 12\<rparr>
      else \<lparr>lim_min = 5, lim_max = 12\<rparr>)"
  by (simp add: sector_limits_def SECTOR_LIMITS_def)

lemma sector_limits_ordered:
  "\<exists>l. sector_limits sector = Inr l \<and> lim_min l \<le> lim_max l"
  by (simp add: sector_limits_table)

lemma round_half_even_bounds:
  "\<lfloor>y\<rfloor> \<le> round_half_even y" "round_half_even y \<le> \<lceil>y\<rceil>"
  unfolding round_half_even_def Let_def
  by (auto simp: ceiling_altdef)

lemma py_round_lower: "of_int a \<le> x \<Longrightarrow> of_int a \<le> py_round x n"
proof -
  assume ax: "of_int a \<le> x"
  have "(of_int (a * 10 ^ n) :: real) \<le> x * 10 ^ n" using ax by simp
  then have "a * 10 ^ n \<le> \<lfloor>x * 10 ^ n\<rfloor>" by (simp only: le_floor_iff)
  also have "\<dots> \<le> round_half_even (x * 10 ^ n)" by (rule round_half_even_bounds)
  finally have "(of_int (a * 10 ^ n) :: real) \<le> of_int (round_half_even (x * 10 ^ n))"
    by (simp only: of_int_le_iff)
  then show ?thesis by (simp add: py_round_def pos_le_divide_eq)
qed

lemma py_round_upper: "x \<le> of_int b \<Longrightarrow> py_round x n \<le> of_int b"
proof -
  assume xb: "x \<le> of_int b"
  have "x * 10 ^ n \<le> (of_int (b * 10 ^ n) :: real)" using xb by simp
  then have "\<lceil>x * 10 ^ n\<rceil> \<le> b * 10 ^ n" by (simp only: ceiling_le_iff)
  moreover have "round_half_even (x * 10 ^ n) \<le> \<lceil>x * 10 ^ n\<rceil>"
    by (rule round_half_even_bounds)
  ultimately have "(of_int (round_half_even (x * 10 ^ n)) :: real) \<le> of_int (b * 10 ^ n)"
    by (simp only: of_int_le_iff)
  then show ?thesis by (simp add: py_round_def pos_divide_le_eq)
qed

subsection \<open>The recent trend\<close>

lemma recent_trend_eq:
  assumes "3 \<le> length vs"
  shows "recent_trend vs =
    Inr (if 0 < vs ! (length vs - 3)
         then (if 0 < vs ! (length vs - 2)
               then ((vs ! (length vs - 2) / vs ! (length vs - 3) - 1) * 100
                     + (vs ! (length vs - 1) / vs ! (length vs - 2) - 1) * 100) / 2
               else (vs ! (length vs - 2) / vs ! (length vs - 3) - 1) * 100)
         else if 0 < vs ! (length vs - 2)
           then (vs ! (length vs - 1) / vs ! (length vs - 2) - 1) * 100
           else 0)"
proof -
  have m: "(-3::int) + 1 = -2" "(-2::int) + 1 = -1" by simp_all
  show ?thesis
    using py_index_last3[OF assms]
    by (simp add: recent_trend_def m py_div_def average_def)
qed

lemma recent_trend_total: "3 \<le> length vs \<Longrightarrow> \<exists>r. recent_trend vs = Inr r"
  by (simp add: recent_trend_eq)

lemma window_two: "3 \<le> n \<Longrightarrow> [n - 1 - 2 ..< n - 1] = [n - 3, n - 2]"
proof -
  assume "3 \<le> (n::nat)"
  then obtain m where "n = m + 3" by (metis add.commute le_Suc_ex)
  then show ?thesis by (simp add: upt_rec)
qed

lemma spec_recent_trend_two:
  assumes "3 \<le> length vs"
  shows "spec_recent_trend 2 vs =
        (if 0 < vs ! (length vs - 3)
         then (if 0 < vs ! (length vs - 2)
               then ((vs ! (length vs - 2) / vs ! (length vs - 3) - 1) * 100
                     + (vs ! (length vs - 1) / vs ! (length vs - 2) - 1) * 100) / 2
               else (vs ! (length vs - 2) / vs ! (length vs - 3) - 1) * 100)
         else if 0 < vs ! (length vs - 2)
           then (vs ! (length vs - 1) / vs ! (length vs - 2) - 1) * 100
           else 0)"
proof -
  from assms obtain m where m: "length vs = m + 3" by (metis add.commute le_Suc_ex)
  have s: "Suc (m + 3 - 3) = m + 3 - 2" "Suc (m + 3 - 2) = m + 3 - 1" by simp_all
  show ?thesis
    by (simp add: spec_recent_trend_def window_growths_def window_two[OF assms] m s Let_def)
qed

lemma fm_recent_trend_eq:
  assumes "3 \<le> length hv"
  shows "fm_recent_trend hv =
    (if hv ! (length hv - 3) = 0 \<or> hv ! (length hv - 2) = 0 then Inl ZeroDivisionError
     else Inr (((hv ! (length hv - 2) / hv ! (length hv - 3) - 1) * 100
              + (hv ! (length hv - 1) / hv ! (length hv - 2) - 1) * 100) / 2))"
proof -
  have m: "(-3::int) + 1 = -2" "(-2::int) + 1 = -1" by simp_all
  show ?thesis
    using py_index_last3[OF assms]
    by (simp add: fm_recent_trend_def m py_div_def)
qed

lemma fm_recent_trend_short: "length hv < 3 \<Longrightarrow> fm_recent_trend hv = Inl IndexError"
  by (auto simp: fm_recent_trend_def py_index_def bind_result_def split: sum.splits)

subsection \<open>The compound annual growth rate\<close>

lemma calculate_cagr_zero:
  assumes "safe_float start = Inr (Fin s)" and "safe_float end' = Inr (Fin e)"
    and "s \<le> 0 \<or> e \<le> 0 \<or> years \<le> 0"
  shows "calculate_cagr start end' years = Inr 0"
  using assms by (auto simp: calculate_cagr_def)

lemma calculate_cagr_pos:
  assumes "safe_float start = Inr (Fin s)" and "safe_float end' = Inr (Fin e)"
    and "0 < s" and "0 < e" and "0 < years"
  shows "calculate_cagr start end' years = Inr (((e / s) powr (1 / of_int years) - 1) * 100)"
  using assms by (simp add: calculate_cagr_def py_div_def)

lemma calculate_cagr_total:
  "\<exists>r. calculate_cagr (PFloat (Fin a)) (PFloat (Fin b)) years = Inr r"
proof (cases "a \<le> 0 \<or> b \<le> 0 \<or> years \<le> 0")
  case True
  then show ?thesis
    using calculate_cagr_zero[of "PFloat (Fin a)" a "PFloat (Fin b)" b years]
    by (simp add: safe_float_cases)
next
  case False
  then show ?thesis
    using calculate_cagr_pos[of "PFloat (Fin a)" a "PFloat (Fin b)" b years]
    by (simp add: safe_float_cases)
qed

lemma fm_calculate_cagr_zero:
  "start_value \<le> 0 \<or> end_value \<le> 0 \<Longrightarrow>
   fm_calculate_cagr start_value end_value years = Inr 0"
  by (simp add: fm_calculate_cagr_def)

lemma fm_calculate_cagr_pos:
  "0 < start_value \<Longrightarrow> 0 < end_value \<Longrightarrow> years \<noteq> 0 \<Longrightarrow>
   fm_calculate_cagr start_value end_value years =
     Inr ((end_value / start_value) powr (1 / of_int years) - 1)"
  by (simp add: fm_calculate_cagr_def py_div_def)

lemma fm_calculate_cagr_total:
  "years \<noteq> 0 \<Longrightarrow> \<exists>r. fm_calculate_cagr start_value end_value years = Inr r"
  by (simp add: fm_calculate_cagr_def py_div_def)

subsection \<open>The two engines\<close>

lemma suggest_growth_short:
  "clean vals = Inr vs \<Longrightarrow> length vs < 4 \<Longrightarrow> suggest_growth vals sector = Inr (0, 0, 0)"
  by (simp add: suggest_growth_def)

lemma suggest_growth_long:
  assumes "clean vals = Inr vs" and "4 \<le> length vs"
    and "calculate_cagr (PFloat (Fin (vs ! 0))) (PFloat (Fin (vs ! (length vs - 1))))
           (int (length vs) - 1) = Inr cagr"
    and "recent_trend vs = Inr recent_avg"
    and "sector_limits sector = Inr lims"
  shows "suggest_growth vals sector =
    Inr (py_round (min (max (0.6 * cagr + 0.4 * recent_avg) (of_int (lim_min lims)))
                       (of_int (lim_max lims))) 2,
         py_round cagr 2, py_round recent_avg 2)"
proof -
  have len: "3 \<le> length vs" "vs \<noteq> []" using assms(2) by auto
  show ?thesis
    using assms py_index_last3(3)[OF len(1)] py_index_first[OF len(2)]
    by (simp add: suggest_growth_def Let_def)
qed

lemma fm_suggest_growth_short:
  "length hv < 3 \<Longrightarrow> \<exists>e. fm_suggest_growth hv sector = Inl e"
  by (auto simp: fm_suggest_growth_def Let_def bind_result_def fm_recent_trend_short
           split: sum.splits)

lemma fm_suggest_growth_long:
  assumes "3 \<le> length hv"
    and "fm_calculate_cagr (hv ! 0) (hv ! (length hv - 1)) (int (length hv) - 1) = Inr fraction"
    and "fm_recent_trend hv = Inr recent_avg"
    and "sector_limits sector = Inr lims"
  shows "fm_suggest_growth hv sector =
    Inr (py_round (min (max (0.6 * (fraction * 100) + 0.4 * recent_avg) (of_int (lim_min lims)))
                       (of_int (lim_max lims))) 1,
         py_round (fraction * 100) 1, py_round recent_avg 1)"
proof -
  have len: "hv \<noteq> []" using assms(1) by auto
  show ?thesis
    using assms py_index_last3(3)[OF assms(1)] py_index_first[OF len]
    by (simp add: fm_suggest_growth_def Let_def)
qed

lemma fm_suggest_growth_zero_divisor:
  assumes "3 \<le> length hv"
    and "hv ! (length hv - 3) = 0 \<or> hv ! (length hv - 2) = 0"
  shows "fm_suggest_growth hv sector = Inl ZeroDivisionError"
proof -
  have len: "hv \<noteq> []" and y: "int (length hv) - 1 \<noteq> 0" using assms(1) by auto
  obtain fraction where
    "fm_calculate_cagr (hv ! 0) (hv ! (length hv - 1)) (int (length hv) - 1) = Inr fraction"
    using fm_calculate_cagr_total[OF y] by blast
  moreover have "fm_recent_trend hv = Inl ZeroDivisionError"
    using assms(2) by (simp add: fm_recent_trend_eq[OF assms(1)])
  ultimately show ?thesis
    using py_index_last3(3)[OF assms(1)] py_index_first[OF len]
    by (simp add: fm_suggest_growth_def Let_def)
qed

subsection \<open>An integer beyond the range of a double\<close>

lemma overflow_examples:
  assumes "0 < n" and "\<not> int_fits_double n"
  shows "safe_float (PInt n) = Inl OverflowError"
    and "suggest_growth [PInt n] sector = Inl OverflowError"
    and "suggest_growth [PInt 1, PInt 2, PInt 3, PInt n] sector = Inl OverflowError"
    and "calculate_cagr (PInt n) (PInt 5) 0 = Inl OverflowError"
  using assms
  by (simp_all add: suggest_growth_def calculate_cagr_def safe_float_cases
        int_fits_double_small)

subsection \<open>Evaluation on concrete inputs\<close>

lemmas engine_defs =
  suggest_growth_def fm_suggest_growth_def calculate_cagr_def fm_calculate_cagr_def
  recent_trend_def fm_recent_trend_def average_def safe_float_def int_fits_double_small
  py_index_def py_div_def
  py_round_def round_half_even_def sector_limits_def SECTOR_LIMITS_def upper_def upper_char_def


section \<open>The claims\<close>

text \<open>
  C1, as stated, fails. In \<^verbatim>\<open>growth_api.py\<close> the comparison \<^verbatim>\<open>v > 0\<close> of the cleaning step
  is made on the raw value, and on None it raises TypeError; a positive integer beyond
  the range of a double passes the comparison and raises OverflowError in \<open>safe_float\<close>.
  \<^verbatim>\<open>financial_model_api.py\<close> checks nothing: the empty series raises IndexError, and a
  zero divisor in the window raises ZeroDivisionError.
\<close>

theorem suggest_growth_raises_counterexample:
  "suggest_growth [PNone] ''IT'' = Inl TypeError
   \<and> suggest_growth [PInt 1, PInt 2, PInt 3, PInt (10 ^ 400)] ''DEFAULT'' = Inl OverflowError
   \<and> fm_suggest_growth [] ''IT'' = Inl IndexError
   \<and> fm_suggest_growth [1, 0, 1] ''IT'' = Inl ZeroDivisionError"
proof -
  have a: "suggest_growth [PInt 1, PInt 2, PInt 3, PInt (10 ^ 400)] ''DEFAULT''
      = Inl OverflowError"
    by (rule overflow_examples(3)[OF big_int_positive int_fits_double_big])
  have b: "suggest_growth [PNone] ''IT'' = Inl TypeError"
    "fm_suggest_growth [] ''IT'' = Inl IndexError"
    "fm_suggest_growth [1, 0, 1] ''IT'' = Inl ZeroDivisionError"
    by (simp_all add: engine_defs)
  from a b show ?thesis by blast
qed

text \<open>
  C1, amended. In \<^verbatim>\<open>growth_api.py\<close>, for every series that holds no None and no integer
  of \<open>2 ^ 1024 - 2 ^ 970\<close> or more (so: floats, NaN and the infinities included, and
  integers below the range limit of a double, in a series of any length) and every
  sector, the engine returns a result and does not raise; the result is
  \<open>(0.0, 0.0, 0.0)\<close> or its suggestion lies within the limits of the sector. In
  \<^verbatim>\<open>financial_model_api.py\<close> the engine returns a result exactly when the series has at
  least 3 values and neither of the two divisors of its window, the third-last and the
  second-last value, is zero.
\<close>

theorem suggest_growth_returns:
  "(PNone \<notin> set vals \<and> (\<forall>i. PInt i \<in> set vals \<longrightarrow> i < DBL_INT_LIMIT) \<longrightarrow>
      (\<exists>s c r. suggest_growth vals sector = Inr (s, c, r)
         \<and> ((s, c, r) = (0, 0, 0)
            \<or> (\<exists>lims. sector_limits sector = Inr lims
                  \<and> of_int (lim_min lims) \<le> s \<and> s \<le> of_int (lim_max lims)))))
   \<and> ((\<exists>res. fm_suggest_growth hv sector = Inr res)
        = (3 \<le> length hv \<and> hv ! (length hv - 3) \<noteq> 0 \<and> hv ! (length hv - 2) \<noteq> 0))"
proof (intro conjI impI)
  assume "PNone \<notin> set vals \<and> (\<forall>i. PInt i \<in> set vals \<longrightarrow> i < DBL_INT_LIMIT)"
  then obtain vs where vs: "clean vals = Inr vs" using clean_total[of vals] by blast
  show "\<exists>s c r. suggest_growth vals sector = Inr (s, c, r)
         \<and> ((s, c, r) = (0, 0, 0)
            \<or> (\<exists>lims. sector_limits sector = Inr lims
                  \<and> of_int (lim_min lims) \<le> s \<and> s \<le> of_int (lim_max lims)))"
  proof (cases "length vs < 4")
    case True
    with vs have "suggest_growth vals sector = Inr (0, 0, 0)" by (rule suggest_growth_short)
    then show ?thesis by blast
  next
    case False
    then have len4: "4 \<le> length vs" and len3: "3 \<le> length vs" by simp_all
    obtain cagr where c: "calculate_cagr (PFloat (Fin (vs ! 0)))
        (PFloat (Fin (vs ! (length vs - 1)))) (int (length vs) - 1) = Inr cagr"
      using calculate_cagr_total by blast
    obtain recent_avg where r: "recent_trend vs = Inr recent_avg"
      using recent_trend_total[OF len3] by blast
    obtain lims where l: "sector_limits sector = Inr lims" and o: "lim_min lims \<le> lim_max lims"
      using sector_limits_ordered by blast
    define final where
      "final = min (max (0.6 * cagr + 0.4 * recent_avg) (of_int (lim_min lims)))
                   (real_of_int (lim_max lims))"
    have res: "suggest_growth vals sector =
        Inr (py_round final 2, py_round cagr 2, py_round recent_avg 2)"
      unfolding final_def by (rule suggest_growth_long[OF vs len4 c r l])
    have "real_of_int (lim_min lims) \<le> real_of_int (lim_max lims)" using o by simp
    then have "of_int (lim_min lims) \<le> final" and "final \<le> of_int (lim_max lims)"
      unfolding final_def by simp_all
    then have "of_int (lim_min lims) \<le> py_round final 2"
      and "py_round final 2 \<le> of_int (lim_max lims)"
      by (simp_all add: py_round_lower py_round_upper)
    with res l show ?thesis by blast
  qed
next
  show "(\<exists>res. fm_suggest_growth hv sector = Inr res)
        = (3 \<le> length hv \<and> hv ! (length hv - 3) \<noteq> 0 \<and> hv ! (length hv - 2) \<noteq> 0)"
  proof
    assume ex: "\<exists>res. fm_suggest_growth hv sector = Inr res"
    have len: "3 \<le> length hv"
    proof (rule ccontr)
      assume "\<not> 3 \<le> length hv"
      then have "length hv < 3" by simp
      then have "\<exists>e. fm_suggest_growth hv sector = Inl e" by (rule fm_suggest_growth_short)
      with ex show False by auto
    qed
    have "\<not> (hv ! (length hv - 3) = 0 \<or> hv ! (length hv - 2) = 0)"
    proof
      assume "hv ! (length hv - 3) = 0 \<or> hv ! (length hv - 2) = 0"
      with len have "fm_suggest_growth hv sector = Inl ZeroDivisionError"
        by (rule fm_suggest_growth_zero_divisor)
      with ex show False by auto
    qed
    with len show "3 \<le> length hv \<and> hv ! (length hv - 3) \<noteq> 0 \<and> hv ! (length hv - 2) \<noteq> 0"
      by simp
  next
    assume a: "3 \<le> length hv \<and> hv ! (length hv - 3) \<noteq> 0 \<and> hv ! (length hv - 2) \<noteq> 0"
    then have len: "3 \<le> length hv" and y: "int (length hv) - 1 \<noteq> 0" by auto
    obtain fraction where
      c: "fm_calculate_cagr (hv ! 0) (hv ! (length hv - 1)) (int (length hv) - 1) = Inr fraction"
      using fm_calculate_cagr_total[OF y] by blast
    have "fm_recent_trend hv =
        Inr (((hv ! (length hv - 2) / hv ! (length hv - 3) - 1) * 100
            + (hv ! (length hv - 1) / hv ! (length hv - 2) - 1) * 100) / 2)"
      using a by (simp add: fm_recent_trend_eq[OF len])
    then obtain recent_avg where r: "fm_recent_trend hv = Inr recent_avg" ..
    obtain lims where l: "sector_limits sector = Inr lims"
      using sector_limits_ordered by blast
    show "\<exists>res. fm_suggest_growth hv sector = Inr res"
      using fm_suggest_growth_long[OF len c r l] by blast
  qed
qed

theorem suggest_growth_returns_witness:
  "PNone \<notin> set [PFloat NaN, PInt 0, PFloat NegInf, PInt 1, PInt 1, PFloat PosInf, PInt 1]
   \<and> 0 < DBL_INT_LIMIT \<and> 1 < DBL_INT_LIMIT
   \<and> suggest_growth [PFloat NaN, PInt 0, PFloat NegInf, PInt 1, PInt 1, PFloat PosInf, PInt 1]
        ''energy'' = Inr (4, 0, -100)
   \<and> sector_limits ''energy'' = Inr \<lparr>lim_min = 4, lim_max = 10\<rparr>
   \<and> 3 \<le> length [2, 1, 1 :: real]
   \<and> [2, 1, 1 :: real] ! (length [2, 1, 1 :: real] - 3) \<noteq> 0
   \<and> [2, 1, 1 :: real] ! (length [2, 1, 1 :: real] - 2) \<noteq> 0
   \<and> (\<exists>res. fm_suggest_growth [2, 1, 1] ''energy'' = Inr res)"
  using suggest_growth_returns
    [of "[PFloat NaN, PInt 0, PFloat NegInf, PInt 1, PInt 1, PFloat PosInf, PInt 1]"
        "''energy''" "[2, 1, 1]"]
    DBL_INT_LIMIT_large
  by (auto simp: engine_defs)

text \<open>
  C2, as stated, fails: the loop runs over the indices -3 and -2, so it examines the last
  two consecutive pairs, not the last three. On \<open>[1, 2, 2, 2]\<close> the recent trend is 0,
  while the mean over the last three pairs is 100 / 3.
\<close>

theorem recent_trend_three_pairs_counterexample:
  "recent_trend [1, 2, 2, 2] = Inr 0 \<and> spec_recent_trend 3 [1, 2, 2, 2] = 100 / 3"
  by (simp add: engine_defs spec_recent_trend_def window_growths_def upt_rec)

text \<open>
  C2, amended. On a series of at least four values the recent trend of \<^verbatim>\<open>growth_api.py\<close>
  is the one the specification describes with a window of the last two consecutive
  pairs: the mean of \<open>((v[i+1] / v[i]) - 1) * 100\<close> over the pairs with a strictly positive
  divisor, and 0.0 when there is none. \<^verbatim>\<open>financial_model_api.py\<close> takes the same two pairs
  without the check of the divisor: it raises ZeroDivisionError when a divisor is zero
  and returns the plain mean of the two growth rates otherwise.
\<close>

theorem recent_trend_last_two_pairs:
  assumes "4 \<le> length vs"
  shows "recent_trend vs = Inr (spec_recent_trend 2 vs)
       \<and> fm_recent_trend vs =
           (if vs ! (length vs - 3) = 0 \<or> vs ! (length vs - 2) = 0 then Inl ZeroDivisionError
            else Inr (((vs ! (length vs - 2) / vs ! (length vs - 3) - 1) * 100
                     + (vs ! (length vs - 1) / vs ! (length vs - 2) - 1) * 100) / 2))"
proof -
  have len: "3 \<le> length vs" using assms by simp
  show ?thesis
    by (simp only: recent_trend_eq[OF len] spec_recent_trend_two[OF len]
          fm_recent_trend_eq[OF len] simp_thms)
qed

theorem recent_trend_last_two_pairs_witness:
  "4 \<le> length [100, 110, 121, 1331 / 10, 14641 / 100 :: real]
   \<and> recent_trend [100, 110, 121, 1331 / 10, 14641 / 100] = Inr 10
   \<and> spec_recent_trend 2 [100, 110, 121, 1331 / 10, 14641 / 100] = 10
   \<and> fm_recent_trend [100, 110, 121, 1331 / 10, 14641 / 100] = Inr 10"
  using recent_trend_last_two_pairs[of "[100, 110, 121, 1331 / 10, 14641 / 100]"]
  by (simp add: spec_recent_trend_def window_growths_def upt_rec)

text \<open>
  C3, as stated, fails on \<^verbatim>\<open>financial_model_api.py\<close>, which has no short-circuit: the
  series \<open>[1, 1, 1]\<close> of length 3 is blended and clamped like any other, and the
  suggestion for the sector IT is the floor 6, not 0.0. In \<^verbatim>\<open>growth_api.py\<close> a series
  of length 1 whose entry is None, or an integer beyond the range of a double, raises in
  the cleaning step, before the check of the length.
\<close>

theorem fm_no_short_circuit_counterexample:
  "fm_suggest_growth [1, 1, 1] ''IT'' = Inr (6, 0, 0)
   \<and> suggest_growth [PInt (10 ^ 400)] ''IT'' = Inl OverflowError
   \<and> suggest_growth [PNone] ''IT'' = Inl TypeError"
proof -
  have a: "suggest_growth [PInt (10 ^ 400)] ''IT'' = Inl OverflowError"
    by (rule overflow_examples(2)[OF big_int_positive int_fits_double_big])
  have b: "fm_suggest_growth [1, 1, 1] ''IT'' = Inr (6, 0, 0)"
    "suggest_growth [PNone] ''IT'' = Inl TypeError"
    by (simp_all add: engine_defs)
  from a b show ?thesis by blast
qed

text \<open>
  C3, amended. In \<^verbatim>\<open>growth_api.py\<close>, whenever the cleaning step completes and keeps
  fewer than 4 entries, the engine returns \<open>(0.0, 0.0, 0.0)\<close> for every sector; this is
  so in particular for every series of length 3 or less that holds no None and no
  integer of \<open>2 ^ 1024 - 2 ^ 970\<close> or more.
\<close>

theorem suggest_growth_short_circuit:
  "(clean vals = Inr vs \<and> length vs < 4 \<longrightarrow> suggest_growth vals sector = Inr (0, 0, 0))
   \<and> (PNone \<notin> set vals \<and> (\<forall>i. PInt i \<in> set vals \<longrightarrow> i < DBL_INT_LIMIT)
        \<and> length vals \<le> 3
      \<longrightarrow> suggest_growth vals sector = Inr (0, 0, 0))"
proof (intro conjI impI)
  assume "clean vals = Inr vs \<and> length vs < 4"
  then show "suggest_growth vals sector = Inr (0, 0, 0)"
    by (simp add: suggest_growth_short)
next
  assume a: "PNone \<notin> set vals \<and> (\<forall>i. PInt i \<in> set vals \<longrightarrow> i < DBL_INT_LIMIT)
        \<and> length vals \<le> 3"
  then obtain ws where ws: "clean vals = Inr ws" using clean_total[of vals] by blast
  then have "length ws \<le> length vals" by (rule clean_length)
  with a have "length ws < 4" by simp
  with ws show "suggest_growth vals sector = Inr (0, 0, 0)"
    by (rule suggest_growth_short)
qed

theorem suggest_growth_short_circuit_witness:
  "clean [PInt 5, PInt 0, PInt 6, PFloat NaN, PInt 7] = Inr [5, 6, 7]
   \<and> length [5, 6, 7 :: real] < 4
   \<and> suggest_growth [PInt 5, PInt 0, PInt 6, PFloat NaN, PInt 7] ''BANKING'' = Inr (0, 0, 0)
   \<and> PNone \<notin> set [PInt 5, PFloat PosInf, PInt 9]
   \<and> 5 < DBL_INT_LIMIT \<and> 9 < DBL_INT_LIMIT
   \<and> length [PInt 5, PFloat PosInf, PInt 9] \<le> 3
   \<and> suggest_growth [PInt 5, PFloat PosInf, PInt 9] ''BANKING'' = Inr (0, 0, 0)"
  using suggest_growth_short_circuit
      [of "[PInt 5, PInt 0, PInt 6, PFloat NaN, PInt 7]" "[5, 6, 7]" "''BANKING''"]
    suggest_growth_short_circuit[of "[PInt 5, PFloat PosInf, PInt 9]" "[]" "''BANKING''"]
    DBL_INT_LIMIT_large
  by (auto simp: safe_float_cases int_fits_double_small)

text \<open>
  C4, as stated, fails. In \<^verbatim>\<open>financial_model_api.py\<close>, \<open>calculate_cagr\<close> has no check of
  \<open>years\<close>: with both values positive, \<open>years = 0\<close> raises ZeroDivisionError in
  \<^verbatim>\<open>1 / years\<close>, and a negative \<open>years\<close> gives a result that is not 0. In \<^verbatim>\<open>growth_api.py\<close>
  both arguments are sanitized before the guard, so an integer beyond the range of a
  double raises OverflowError even when \<open>years\<close> is 0.
\<close>

theorem fm_calculate_cagr_years_counterexample:
  "fm_calculate_cagr 1 1 0 = Inl ZeroDivisionError
   \<and> fm_calculate_cagr 1 2 (- 1) = Inr (- 1 / 2)
   \<and> calculate_cagr (PInt (10 ^ 400)) (PInt 5) 0 = Inl OverflowError"
proof -
  have a: "calculate_cagr (PInt (10 ^ 400)) (PInt 5) 0 = Inl OverflowError"
    by (rule overflow_examples(4)[OF big_int_positive int_fits_double_big])
  have b: "fm_calculate_cagr 1 1 0 = Inl ZeroDivisionError"
    "fm_calculate_cagr 1 2 (- 1) = Inr (- 1 / 2)"
    by (simp_all add: engine_defs powr_minus)
  from a b show ?thesis by blast
qed

text \<open>
  C4, amended. In \<^verbatim>\<open>growth_api.py\<close>, for every \<open>start\<close> and \<open>end\<close> that \<open>safe_float\<close>
  converts, which is every value but an integer of magnitude \<open>2 ^ 1024 - 2 ^ 970\<close> or
  more, \<open>calculate_cagr\<close> returns 0.0, without raising and without dividing, whenever
  the sanitized \<open>start\<close> is at most 0, or the sanitized \<open>end\<close> is at most 0, or \<open>years\<close> is
  at most 0. In \<^verbatim>\<open>financial_model_api.py\<close> it returns 0 whenever \<open>start\<close> or \<open>end\<close> is at
  most 0, whatever \<open>years\<close> is.
\<close>

theorem calculate_cagr_guard:
  "(safe_float start = Inr (Fin s) \<and> safe_float end' = Inr (Fin e)
      \<and> (s \<le> 0 \<or> e \<le> 0 \<or> years \<le> 0)
      \<longrightarrow> calculate_cagr start end' years = Inr 0)
   \<and> ((\<forall>i. start = PInt i \<longrightarrow> int_fits_double i)
      \<and> (\<forall>i. end' = PInt i \<longrightarrow> int_fits_double i)
      \<longrightarrow> (\<exists>s' e'. safe_float start = Inr (Fin s') \<and> safe_float end' = Inr (Fin e')
            \<and> (s' \<le> 0 \<or> e' \<le> 0 \<or> years \<le> 0
                \<longrightarrow> calculate_cagr start end' years = Inr 0)))
   \<and> (start_value \<le> 0 \<or> end_value \<le> 0
      \<longrightarrow> fm_calculate_cagr start_value end_value years = Inr 0)"
proof (intro conjI impI)
  assume "safe_float start = Inr (Fin s) \<and> safe_float end' = Inr (Fin e)
      \<and> (s \<le> 0 \<or> e \<le> 0 \<or> years \<le> 0)"
  then show "calculate_cagr start end' years = Inr 0"
    using calculate_cagr_zero[of start s end' e years] by blast
next
  assume a: "(\<forall>i. start = PInt i \<longrightarrow> int_fits_double i)
      \<and> (\<forall>i. end' = PInt i \<longrightarrow> int_fits_double i)"
  obtain s' where s': "safe_float start = Inr (Fin s')"
    using a safe_float_finite[of start] by blast
  obtain e' where e': "safe_float end' = Inr (Fin e')"
    using a safe_float_finite[of end'] by blast
  show "\<exists>s' e'. safe_float start = Inr (Fin s') \<and> safe_float end' = Inr (Fin e')
            \<and> (s' \<le> 0 \<or> e' \<le> 0 \<or> years \<le> 0
                \<longrightarrow> calculate_cagr start end' years = Inr 0)"
    using s' e' calculate_cagr_zero[OF s' e', of years] by blast
next
  assume "start_value \<le> 0 \<or> end_value \<le> 0"
  then show "fm_calculate_cagr start_value end_value years = Inr 0"
    by (rule fm_calculate_cagr_zero)
qed

theorem calculate_cagr_guard_witness:
  "(safe_float (PFloat NegInf) = Inr (Fin 0) \<and> safe_float (PInt 7) = Inr (Fin 7)
      \<and> ((0::real) \<le> 0 \<or> (7::real) \<le> 0 \<or> (3::int) \<le> 0)
      \<and> calculate_cagr (PFloat NegInf) (PInt 7) 3 = Inr 0)
   \<and> (int_fits_double 2 \<and> int_fits_double 7
      \<and> safe_float (PInt 2) = Inr (Fin 2) \<and> safe_float (PInt 7) = Inr (Fin 7)
      \<and> ((2::real) \<le> 0 \<or> (7::real) \<le> 0 \<or> (0::int) \<le> 0)
      \<and> calculate_cagr (PInt 2) (PInt 7) 0 = Inr 0)
   \<and> (((- 1::real) \<le> 0 \<or> (5::real) \<le> 0) \<and> fm_calculate_cagr (- 1) 5 0 = Inr 0)"
  using calculate_cagr_guard[of "PFloat NegInf" 0 "PInt 7" 7 3 "- 1" 5]
    calculate_cagr_guard[of "PInt 2" 2 "PInt 7" 7 0 "- 1" 5]
  by (simp add: safe_float_cases int_fits_double_small)

text \<open>
  C5, as stated, fails on \<^verbatim>\<open>financial_model_api.py\<close>: its \<open>calculate_cagr\<close> returns the
  fraction, not the percentage. From 1 to 2 in one year it returns 1, not 100.
\<close>

theorem fm_calculate_cagr_fraction_counterexample:
  "fm_calculate_cagr 1 2 1 = Inr 1
   \<and> fm_calculate_cagr 1 2 1 \<noteq> Inr (((2 / 1) powr (1 / of_int 1) - 1) * 100)"
  by (simp add: engine_defs)

text \<open>
  C5, amended. For strictly positive \<open>start\<close> and \<open>end\<close> and \<open>years > 0\<close>, \<open>calculate_cagr\<close>
  of \<^verbatim>\<open>growth_api.py\<close> returns the percentage \<open>((end / start) ^ (1 / years) - 1) * 100\<close>,
  and \<open>calculate_cagr\<close> of \<^verbatim>\<open>financial_model_api.py\<close> returns the fraction
  \<open>(end / start) ^ (1 / years) - 1\<close>, which its caller multiplies by 100.
\<close>

theorem calculate_cagr_formula:
  assumes "0 < s" and "0 < e" and "0 < years"
  shows "(safe_float start = Inr (Fin s) \<and> safe_float end' = Inr (Fin e)
            \<longrightarrow> calculate_cagr start end' years
                  = Inr (((e / s) powr (1 / of_int years) - 1) * 100))
       \<and> calculate_cagr (PFloat (Fin s)) (PFloat (Fin e)) years
           = Inr (((e / s) powr (1 / of_int years) - 1) * 100)
       \<and> fm_calculate_cagr s e years = Inr ((e / s) powr (1 / of_int years) - 1)"
proof -
  have y: "years \<noteq> 0" using assms(3) by simp
  show ?thesis
    using calculate_cagr_pos[of start s end' e years]
      calculate_cagr_pos[of "PFloat (Fin s)" s "PFloat (Fin e)" e years]
      fm_calculate_cagr_pos[of s e years] assms y
    by (simp add: safe_float_cases)
qed

theorem calculate_cagr_formula_witness:
  "(0::real) < 100 \<and> (0::real) < 121 \<and> (0::int) < 2
   \<and> safe_float (PInt 100) = Inr (Fin 100) \<and> safe_float (PInt 121) = Inr (Fin 121)
   \<and> calculate_cagr (PInt 100) (PInt 121) 2 = Inr (((121 / 100) powr (1 / 2) - 1) * 100)
   \<and> fm_calculate_cagr 100 121 2 = Inr ((121 / 100) powr (1 / 2) - 1)"
  using calculate_cagr_formula[of 100 121 2 "PInt 100" "PInt 121"]
  by (simp add: safe_float_cases int_fits_double_small)



text \<open>
  C7, as stated, fails: \<open>safe_float\<close> ends in \<^verbatim>\<open>float(x)\<close>, which raises OverflowError on
  an integer beyond the range of a double, such as \<open>10 ^ 400\<close>.
\<close>

theorem safe_float_overflow_counterexample:
  "safe_float (PInt (10 ^ 400)) = Inl OverflowError"
  by (rule overflow_examples(1)[OF big_int_positive int_fits_double_big])

text \<open>
  C7, amended. On every value that is None, a float (NaN and the infinities included)
  or an integer of magnitude below \<open>2 ^ 1024 - 2 ^ 970\<close>, \<open>safe_float\<close> returns a finite
  float and does not raise, and these are the only values on which it returns: None,
  NaN and both infinities give 0.0, such an integer gives the float of the same value
  (so \<^verbatim>\<open>safe_float(5) == 5.0\<close>), and a finite float is returned as it is.
\<close>

theorem safe_float_total_finite:
  "((\<forall>j. x = PInt j \<longrightarrow> int_fits_double j) \<longrightarrow> (\<exists>r. safe_float x = Inr (Fin r)))
   \<and> (safe_float x = Inr f \<longrightarrow> (\<exists>r. f = Fin r) \<and> (\<forall>j. x = PInt j \<longrightarrow> int_fits_double j))
   \<and> int_fits_double i = (- (2 ^ 1024 - 2 ^ 970) < i \<and> i < 2 ^ 1024 - 2 ^ 970)
   \<and> safe_float PNone = Inr (Fin 0)
   \<and> safe_float (PFloat NaN) = Inr (Fin 0)
   \<and> safe_float (PFloat PosInf) = Inr (Fin 0)
   \<and> safe_float (PFloat NegInf) = Inr (Fin 0)
   \<and> (int_fits_double i \<longrightarrow> safe_float (PInt i) = Inr (Fin (of_int i)))
   \<and> safe_float (PFloat (Fin r)) = Inr (Fin r)
   \<and> safe_float (PInt 5) = Inr (Fin 5)"
proof -
  have a: "(\<forall>j. x = PInt j \<longrightarrow> int_fits_double j) \<longrightarrow> (\<exists>r. safe_float x = Inr (Fin r))"
    using safe_float_finite[of x] by blast
  have b: "safe_float x = Inr f \<longrightarrow> (\<forall>j. x = PInt j \<longrightarrow> int_fits_double j)"
    by (auto simp: safe_float_cases split: if_splits)
  have c: "safe_float x = Inr f \<longrightarrow> (\<exists>r. f = Fin r)"
    using safe_float_result[of x f] by blast
  have d: "int_fits_double i = (- (2 ^ 1024 - 2 ^ 970) < i \<and> i < 2 ^ 1024 - 2 ^ 970)"
    by (simp only: int_fits_double_def DBL_INT_LIMIT_def)
  have e: "safe_float (PInt 5) = Inr (Fin 5)"
    by (simp add: safe_float_cases int_fits_double_small)
  have g: "int_fits_double i \<longrightarrow> safe_float (PInt i) = Inr (Fin (of_int i))"
    by (simp add: safe_float_cases)
  have h: "safe_float PNone = Inr (Fin 0)" "safe_float (PFloat NaN) = Inr (Fin 0)"
    "safe_float (PFloat PosInf) = Inr (Fin 0)" "safe_float (PFloat NegInf) = Inr (Fin 0)"
    "safe_float (PFloat (Fin r)) = Inr (Fin r)"
    by (simp_all add: safe_float_cases)
  from b c have bc: "safe_float x = Inr f \<longrightarrow>
      (\<exists>r. f = Fin r) \<and> (\<forall>j. x = PInt j \<longrightarrow> int_fits_double j)"
    by blast
  show ?thesis
    by (intro conjI) (rule a, rule bc, rule d, rule h(1), rule h(2), rule h(3), rule h(4),
        rule g, rule h(5), rule e)
qed

theorem safe_float_total_finite_witness:
  "int_fits_double 5 \<and> safe_float (PInt 5) = Inr (Fin 5)
   \<and> int_fits_double (- 3) \<and> safe_float (PInt (- 3)) = Inr (Fin (- 3))
   \<and> safe_float (PFloat PosInf) = Inr (Fin 0)"
  using safe_float_total_finite[of "PInt 5" "Fin 5" "- 3" 0]
  by (simp add: int_fits_double_small)

text \<open>
  C8. The lookup of the sector limits upper-cases the tag and never raises: ENERGY gives
  (4, 10), IT gives (6, 15), BANKING gives (7, 14), FMCG gives (5, 12), and every other
  tag, the empty one and DEFAULT itself included, gives the DEFAULT entry (5, 12). So
  \<^verbatim>\<open>it\<close> and \<^verbatim>\<open>IT\<close> both give (6, 15), and \<^verbatim>\<open>unknown\<close> gives what \<^verbatim>\<open>DEFAULT\<close> gives.
\<close>

theorem sector_limits_lookup:
  "sector_limits sector = Inr
     (if upper sector = ''ENERGY'' then \<lparr>lim_min = 4, lim_max = 10\<rparr>
      else if upper sector = ''IT'' then \<lparr>lim_min = 6, lim_max = 15\<rparr>
      else if upper sector = ''BANKING'' then \<lparr>lim_min = 7, lim_max = 14\<rparr>
      else if upper sector = ''FMCG'' then \<lparr>lim_min = 5, lim_max = 12\<rparr>
      else \<lparr>lim_min = 5, lim_max = 12\<rparr>)
   \<and> upper ''it'' = ''IT''
   \<and> sector_limits ''it'' = sector_limits ''IT''
   \<and> sector_limits ''IT'' = Inr \<lparr>lim_min = 6, lim_max = 15\<rparr>
   \<and> sector_limits ''unknown'' = sector_limits ''DEFAULT''
   \<and> sector_limits ''DEFAULT'' = Inr \<lparr>lim_min = 5, lim_max = 12\<rparr>
   \<and> sector_limits [] = Inr \<lparr>lim_min = 5, lim_max = 12\<rparr>"
  by (simp add: sector_limits_table) (simp add: upper_def upper_char_def)

text \<open>
  C9, as stated, fails: in the window of \<open>[1, 1, 0, 1]\<close> exactly one pair has a strictly
  positive divisor, and the recent trend is the growth of that pair, -100, not 0.0. The
  engine reaches this window from the series \<open>[1, 1, inf, 1]\<close>.
\<close>

theorem recent_trend_one_pair_counterexample:
  "recent_loop [1, 1, 0, 1] [-3, -2] [] = Inr [-100]
   \<and> recent_trend [1, 1, 0, 1] = Inr (-100)
   \<and> suggest_growth [PInt 1, PInt 1, PFloat PosInf, PInt 1] ''IT'' = Inr (6, 0, -100)"
  by (simp add: engine_defs)

text \<open>
  C9, amended. On a series of at least three values the recent trend is 0.0 when neither
  of the two examined pairs has a strictly positive divisor; when exactly one of them
  has, it is the growth rate of that pair.
\<close>

theorem recent_trend_by_valid_pairs:
  assumes "3 \<le> length vs"
  shows "(\<not> 0 < vs ! (length vs - 3) \<and> \<not> 0 < vs ! (length vs - 2)
            \<longrightarrow> recent_trend vs = Inr 0)
       \<and> (0 < vs ! (length vs - 3) \<and> \<not> 0 < vs ! (length vs - 2)
            \<longrightarrow> recent_trend vs = Inr ((vs ! (length vs - 2) / vs ! (length vs - 3) - 1) * 100))
       \<and> (\<not> 0 < vs ! (length vs - 3) \<and> 0 < vs ! (length vs - 2)
            \<longrightarrow> recent_trend vs = Inr ((vs ! (length vs - 1) / vs ! (length vs - 2) - 1) * 100))"
  by (simp add: recent_trend_eq[OF assms])

theorem recent_trend_by_valid_pairs_witness:
  "(3 \<le> length [1, 0, 0, 5 :: real]
      \<and> \<not> (0::real) < [1, 0, 0, 5] ! 1 \<and> \<not> (0::real) < [1, 0, 0, 5] ! 2
      \<and> recent_trend [1, 0, 0, 5] = Inr 0)
   \<and> (3 \<le> length [1, 2, 0, 5 :: real]
      \<and> (0::real) < [1, 2, 0, 5] ! 1 \<and> \<not> (0::real) < [1, 2, 0, 5] ! 2
      \<and> recent_trend [1, 2, 0, 5] = Inr (- 100))
   \<and> (3 \<le> length [1, 0, 4, 5 :: real]
      \<and> \<not> (0::real) < [1, 0, 4, 5] ! 1 \<and> (0::real) < [1, 0, 4, 5] ! 2
      \<and> recent_trend [1, 0, 4, 5] = Inr 25)"
  using recent_trend_by_valid_pairs[of "[1, 0, 0, 5]"]
    recent_trend_by_valid_pairs[of "[1, 2, 0, 5]"]
    recent_trend_by_valid_pairs[of "[1, 0, 4, 5]"]
  by simp

text \<open>
  C10. In the cleaning step of \<^verbatim>\<open>growth_api.py\<close> the comparison with 0 is made on the raw
  value, before \<open>safe_float\<close>. So \<open>+inf\<close> passes the comparison and is then turned into
  0.0: the cleaned series of \<open>[1, 2, 3, inf]\<close> is \<open>[1, 2, 3, 0]\<close>, which is not strictly
  positive; its fourth entry lifts the series over the minimum of four (without it the
  result is the short-circuit \<open>(0, 0, 0)\<close>); and as the numerator of the last transition
  it gives a growth of -100.
\<close>

theorem infinity_survives_cleaning:
  "py_gt0 (PFloat PosInf) = Inr True
   \<and> safe_float (PFloat PosInf) = Inr (Fin 0)
   \<and> clean [PInt 1, PInt 2, PInt 3, PFloat PosInf] = Inr [1, 2, 3, 0]
   \<and> suggest_growth [PInt 1, PInt 2, PInt 3] ''DEFAULT'' = Inr (0, 0, 0)
   \<and> recent_loop [1, 2, 3, 0] [-3, -2] [] = Inr [50, -100]
   \<and> suggest_growth [PInt 1, PInt 2, PInt 3, PFloat PosInf] ''DEFAULT'' = Inr (5, 0, -25)"
  by (simp add: engine_defs)

end
